theory Spec2Isabelle
  imports Main "HOL-Library.Sublist"
begin

section \<open>The parsed export document\<close>

text \<open>
  \<^verbatim>\<open>convert.py\<close> works on whatever \<^verbatim>\<open>json.load\<close> returns, so the model keeps the
  whole value space of a parsed JSON text: \<^verbatim>\<open>None\<close>, \<^verbatim>\<open>bool\<close>, \<^verbatim>\<open>int\<close>, \<^verbatim>\<open>str\<close>,
  \<^verbatim>\<open>list\<close> and \<^verbatim>\<open>dict\<close>. A \<^verbatim>\<open>dict\<close> is the association list of its keys in
  insertion order (the keys of a parsed object are distinct; a lookup takes the entry of
  the key). Strings are \<open>char list\<close>s. Float literals are not part of the model.
\<close>

datatype json =
    JNull
  | JBool bool
  | JInt int
  | JStr string
  | JArr "json list"
  | JObj "(string \<times> json) list"

text \<open>The exceptions the program can raise; none of them is caught anywhere.\<close>

datatype error =
    KeyError string
  | TypeError
  | AttributeError
  | FileNotFoundError
  | JSONDecodeError
  | OSError

section \<open>The Python operations the program uses\<close>

text \<open>Truth value of an object, as \<^verbatim>\<open>if x:\<close> tests it.\<close>

fun py_truthy :: "json \<Rightarrow> bool" where
  "py_truthy JNull = False"
| "py_truthy (JBool b) = b"
| "py_truthy (JInt n) = (n \<noteq> 0)"
| "py_truthy (JStr s) = (s \<noteq> [])"
| "py_truthy (JArr xs) = (xs \<noteq> [])"
| "py_truthy (JObj kvs) = (kvs \<noteq> [])"

text \<open>
  \<^verbatim>\<open>x == y\<close>. A \<^verbatim>\<open>bool\<close> is an \<^verbatim>\<open>int\<close> (\<^verbatim>\<open>True == 1\<close>); lists are equal elementwise,
  dicts when they have the same keys with equal values; objects of different kinds are
  unequal.
\<close>

fun py_eq :: "json \<Rightarrow> json \<Rightarrow> bool" where
  "py_eq JNull y = (y = JNull)"
| "py_eq (JBool a) y =
     (case y of JBool b \<Rightarrow> a = b | JInt n \<Rightarrow> (if a then 1 else 0) = n | _ \<Rightarrow> False)"
| "py_eq (JInt m) y =
     (case y of JBool b \<Rightarrow> m = (if b then 1 else 0) | JInt n \<Rightarrow> m = n | _ \<Rightarrow> False)"
| "py_eq (JStr s) y = (y = JStr s)"
| "py_eq (JArr xs) y = (case y of JArr ys \<Rightarrow> list_all2 py_eq xs ys | _ \<Rightarrow> False)"
| "py_eq (JObj kvs) y =
     (case y of
        JObj kws \<Rightarrow>
          length kvs = length kws \<and>
          list_all (\<lambda>kv. case map_of kws (fst kv) of
                            None \<Rightarrow> False
                          | Some w \<Rightarrow> py_eq (snd kv) w) kvs
      | _ \<Rightarrow> False)"

text \<open>\<^verbatim>\<open>t in s\<close> for two strings: \<open>t\<close> occurs in \<open>s\<close> as a contiguous run.\<close>

fun substring :: "string \<Rightarrow> string \<Rightarrow> bool" where
  "substring t [] = (t = [])"
| "substring t (c # s) = (prefix t (c # s) \<or> substring t s)"

text \<open>
  \<^verbatim>\<open>x in y\<close>. On a string the left operand must be a string (else \<^verbatim>\<open>TypeError\<close>); on a
  list it compares with each element; on a dict it looks the key up, which needs a
  hashable left operand; \<^verbatim>\<open>None\<close>, \<^verbatim>\<open>bool\<close> and \<^verbatim>\<open>int\<close> are not containers.
\<close>

fun py_in :: "json \<Rightarrow> json \<Rightarrow> error + bool" where
  "py_in x (JStr s) = (case x of JStr t \<Rightarrow> Inr (substring t s) | _ \<Rightarrow> Inl TypeError)"
| "py_in x (JArr ys) = Inr (list_ex (py_eq x) ys)"
| "py_in x (JObj kvs) =
     (case x of
        JArr _ \<Rightarrow> Inl TypeError
      | JObj _ \<Rightarrow> Inl TypeError
      | JStr k \<Rightarrow> Inr (map_of kvs k \<noteq> None)
      | _ \<Rightarrow> Inr False)"
| "py_in x JNull = Inl TypeError"
| "py_in x (JBool b) = Inl TypeError"
| "py_in x (JInt n) = Inl TypeError"

text \<open>\<^verbatim>\<open>obj[key]\<close> with a string key: only a dict accepts it, and the key must be there.\<close>

fun py_getitem :: "json \<Rightarrow> string \<Rightarrow> error + json" where
  "py_getitem (JObj kvs) k =
     (case map_of kvs k of None \<Rightarrow> Inl (KeyError k) | Some v \<Rightarrow> Inr v)"
| "py_getitem _ k = Inl TypeError"

text \<open>\<^verbatim>\<open>obj.get(key, None)\<close>: only a dict has the method.\<close>

fun py_get :: "json \<Rightarrow> string \<Rightarrow> error + json" where
  "py_get (JObj kvs) k = Inr (case map_of kvs k of None \<Rightarrow> JNull | Some v \<Rightarrow> v)"
| "py_get _ k = Inl AttributeError"

text \<open>
  The elements a \<^verbatim>\<open>for\<close> loop visits: the elements of a list, the one-character strings
  of a string, the keys of a dict; anything else is not iterable.
\<close>

fun py_iter :: "json \<Rightarrow> error + json list" where
  "py_iter (JArr xs) = Inr xs"
| "py_iter (JStr s) = Inr (map (\<lambda>c. JStr [c]) s)"
| "py_iter (JObj kvs) = Inr (map (\<lambda>kv. JStr (fst kv)) kvs)"
| "py_iter _ = Inl TypeError"

section \<open>Folder resolution\<close>

text \<open>
  \<^verbatim>\<open>
  def folder_name_to_id(js, name):
      for f in js['folders']:
          if f['name'] == name:
              return f['id']
  \<close>
  The loop is \<open>folders_loop\<close>; falling off its end returns \<^verbatim>\<open>None\<close>.
\<close>

fun folders_loop :: "json list \<Rightarrow> string \<Rightarrow> error + json" where
  "folders_loop [] name = Inr JNull"
| "folders_loop (f # fs) name =
     (case py_getitem f ''name'' of
        Inl e \<Rightarrow> Inl e
      | Inr n \<Rightarrow>
          if py_eq n (JStr name) then py_getitem f ''id''
          else folders_loop fs name)"

definition folder_name_to_id :: "json \<Rightarrow> string \<Rightarrow> error + json" where
  "folder_name_to_id js name =
     (case py_getitem js ''folders'' of
        Inl e \<Rightarrow> Inl e
      | Inr fs \<Rightarrow>
          (case py_iter fs of
             Inl e \<Rightarrow> Inl e
           | Inr l \<Rightarrow> folders_loop l name))"

section \<open>The conversion loop\<close>

text \<open>
  An output record is the triple the line is formatted from,
  \<^verbatim>\<open>f"{uri['uri']},{username},{password}"\<close>: the line itself is the three values
  rendered by \<^verbatim>\<open>str\<close> and joined by commas. Each record is printed and written to the
  file by one \<^verbatim>\<open>csv.write\<close> call. A loop returns the records it emitted and the
  exception that ended it, if any: the records emitted before an exception stay
  written.
\<close>

type_synonym csv_line = "json \<times> json \<times> json"

text \<open>
  \<^verbatim>\<open>
  for uri in login['uris']:
      item = f"{uri['uri']},{username},{password}"
      if folder_id:
          if folder_id in i['folderId']:
              print(item)
              csv.write(f"{item}\n")
      else:
          print(item)
          csv.write(f"{item}\n")
  \<close>
\<close>

fun uris_loop ::
  "json \<Rightarrow> json \<Rightarrow> json \<Rightarrow> json \<Rightarrow> json list \<Rightarrow> csv_line list \<times> error option" where
  "uris_loop folder_id i username password [] = ([], None)"
| "uris_loop folder_id i username password (uri # rest) =
     (case py_getitem uri ''uri'' of
        Inl e \<Rightarrow> ([], Some e)
      | Inr u \<Rightarrow>
          if py_truthy folder_id then
            (case py_getitem i ''folderId'' of
               Inl e \<Rightarrow> ([], Some e)
             | Inr fi \<Rightarrow>
                 (case py_in folder_id fi of
                    Inl e \<Rightarrow> ([], Some e)
                  | Inr b \<Rightarrow>
                      if b then
                        (case uris_loop folder_id i username password rest of
                           (ls, r) \<Rightarrow> ((u, username, password) # ls, r))
                      else uris_loop folder_id i username password rest))
          else
            (case uris_loop folder_id i username password rest of
               (ls, r) \<Rightarrow> ((u, username, password) # ls, r)))"

text \<open>
  The body of \<^verbatim>\<open>for i in js['items']\<close>, for one item:
  \<^verbatim>\<open>
  folderid = i.get('folderId', None)
  if folderid and exclude:
      if folderid in exclude:
          continue
  login = i.get('login', None)
  if login is None:
      continue
  username = login['username']
  password = login['password']
  for uri in login['uris']: ...
  \<close>
\<close>

definition exclude_check :: "json \<Rightarrow> json \<Rightarrow> error + bool" where
  "exclude_check exclude folderid =
     (if py_truthy folderid \<and> py_truthy exclude then py_in folderid exclude
      else Inr False)"

definition item_body :: "json \<Rightarrow> json \<Rightarrow> json \<Rightarrow> csv_line list \<times> error option" where
  "item_body folder_id exclude i =
     (case py_get i ''folderId'' of
        Inl e \<Rightarrow> ([], Some e)
      | Inr folderid \<Rightarrow>
          (case exclude_check exclude folderid of
             Inl e \<Rightarrow> ([], Some e)
           | Inr skip \<Rightarrow>
               if skip then ([], None)
               else
                 (case py_get i ''login'' of
                    Inl e \<Rightarrow> ([], Some e)
                  | Inr login \<Rightarrow>
                      if login = JNull then ([], None)
                      else
                        (case py_getitem login ''username'' of
                           Inl e \<Rightarrow> ([], Some e)
                         | Inr username \<Rightarrow>
                             (case py_getitem login ''password'' of
                                Inl e \<Rightarrow> ([], Some e)
                              | Inr password \<Rightarrow>
                                  (case py_getitem login ''uris'' of
                                     Inl e \<Rightarrow> ([], Some e)
                                   | Inr us \<Rightarrow>
                                       (case py_iter us of
                                          Inl e \<Rightarrow> ([], Some e)
                                        | Inr l \<Rightarrow>
                                            uris_loop folder_id i username password l)))))))"

text \<open>The loop over the items stops at the first exception.\<close>

fun items_loop :: "json \<Rightarrow> json \<Rightarrow> json list \<Rightarrow> csv_line list \<times> error option" where
  "items_loop folder_id exclude [] = ([], None)"
| "items_loop folder_id exclude (i # rest) =
     (case item_body folder_id exclude i of
        (ls, Some e) \<Rightarrow> (ls, Some e)
      | (ls, None) \<Rightarrow>
          (case items_loop folder_id exclude rest of (ls', r) \<Rightarrow> (ls @ ls', r)))"

section \<open>The program\<close>

text \<open>
  The namespace \<^verbatim>\<open>argparse\<close> returns: each option is a string or \<^verbatim>\<open>None\<close>.
\<close>

record args =
  file_arg :: "string option"
  filter_arg :: "string option"
  exclude_arg :: "string option"

text \<open>
  What the program takes from outside: \<^verbatim>\<open>parse_args\<close> of the library (it returns the
  namespace or leaves the process with a status), the outcome of
  \<^verbatim>\<open>open(file, 'r')\<close> followed by \<^verbatim>\<open>json.load\<close>, and whether \<^verbatim>\<open>open(path, 'w')\<close>
  succeeds.
\<close>

record env =
  parse_args :: "string list \<Rightarrow> nat + args"
  read_json :: "string \<Rightarrow> error + json"
  open_w :: "string \<Rightarrow> error option"

datatype printed = Msg string | Help | Rec csv_line

datatype outcome = Completed | Exited nat | Raised error

text \<open>
  A run: how the process ended, what it printed on standard output, and the output file:
  \<open>None\<close> when \<^verbatim>\<open>open(..., 'w')\<close> was not reached or failed (no file is created or
  truncated), otherwise its path and the records written to it.
\<close>

record run =
  outcome :: outcome
  stdout :: "printed list"
  csv :: "(string \<times> csv_line list) option"

text \<open>
  The exit status of the process: \<^verbatim>\<open>exit()\<close> and \<^verbatim>\<open>sys.exit(n)\<close> give theirs, an
  uncaught exception gives 1.
\<close>

fun exit_status :: "outcome \<Rightarrow> nat" where
  "exit_status Completed = 0"
| "exit_status (Exited n) = n"
| "exit_status (Raised e) = 1"

text \<open>\<^verbatim>\<open>if args.filter:\<close> on an option of the namespace.\<close>

fun opt_truthy :: "string option \<Rightarrow> bool" where
  "opt_truthy None = False"
| "opt_truthy (Some s) = (s \<noteq> [])"

text \<open>
  \<^verbatim>\<open>
  if len(sys.argv) < 2:
      parser.print_help()
      sys.exit(1)
  return parser.parse_args()
  \<close>
  \<open>argv\<close> is \<^verbatim>\<open>sys.argv\<close>, the program's name first.
\<close>

definition get_args :: "env \<Rightarrow> string list \<Rightarrow> (printed list \<times> nat) + args" where
  "get_args ev argv =
     (if length argv < 2 then Inl ([Help], 1)
      else (case parse_args ev argv of Inl n \<Rightarrow> Inl ([], n) | Inr a \<Rightarrow> Inr a))"

text \<open>
  \<^verbatim>\<open>
  folder_id = None
  if args.filter:
      folder_id = folder_name_to_id(js, args.filter)
  \<close>
  and the same for \<^verbatim>\<open>exclude\<close>.
\<close>

definition resolve :: "json \<Rightarrow> string option \<Rightarrow> error + json" where
  "resolve js opt =
     (if opt_truthy opt then folder_name_to_id js (the opt) else Inr JNull)"

text \<open>
  The \<^verbatim>\<open>with open(f"{args.file}.csv", 'w') as csv:\<close> block: the file is opened first, then
  \<^verbatim>\<open>js['items']\<close> is evaluated and iterated.
\<close>

definition write_csv :: "string \<Rightarrow> json \<Rightarrow> json \<Rightarrow> json \<Rightarrow> printed list \<Rightarrow> run" where
  "write_csv path js folder_id exclude out =
     (case py_getitem js ''items'' of
        Inl e \<Rightarrow> \<lparr>outcome = Raised e, stdout = out, csv = Some (path, [])\<rparr>
      | Inr its \<Rightarrow>
          (case py_iter its of
             Inl e \<Rightarrow> \<lparr>outcome = Raised e, stdout = out, csv = Some (path, [])\<rparr>
           | Inr l \<Rightarrow>
               (case items_loop folder_id exclude l of
                  (ls, r) \<Rightarrow>
                    \<lparr>outcome = (case r of None \<Rightarrow> Completed | Some e \<Rightarrow> Raised e),
                     stdout = out @ map Rec ls,
                     csv = Some (path, ls)\<rparr>)))"

definition banner :: "printed list" where
  "banner = [Msg ''Bitwarden to Mooltipass'']"

definition main :: "env \<Rightarrow> string list \<Rightarrow> run" where
  "main ev argv =
     (case get_args ev argv of
        Inl (p, n) \<Rightarrow> \<lparr>outcome = Exited n, stdout = banner @ p, csv = None\<rparr>
      | Inr a \<Rightarrow>
          if \<not> opt_truthy (file_arg a) then
            \<lparr>outcome = Exited 0,
             stdout = banner @ [Msg ''Error: Need a json file from Bitwarden''],
             csv = None\<rparr>
          else
            (case read_json ev (the (file_arg a)) of
               Inl e \<Rightarrow> \<lparr>outcome = Raised e, stdout = banner, csv = None\<rparr>
             | Inr js \<Rightarrow>
                 (case resolve js (filter_arg a) of
                    Inl e \<Rightarrow> \<lparr>outcome = Raised e, stdout = banner, csv = None\<rparr>
                  | Inr folder_id \<Rightarrow>
                      (case resolve js (exclude_arg a) of
                         Inl e \<Rightarrow> \<lparr>outcome = Raised e, stdout = banner, csv = None\<rparr>
                       | Inr exclude \<Rightarrow>
                           (case open_w ev (the (file_arg a) @ ''.csv'') of
                              Some e \<Rightarrow> \<lparr>outcome = Raised e, stdout = banner, csv = None\<rparr>
                            | None \<Rightarrow>
                                write_csv (the (file_arg a) @ ''.csv'') js folder_id exclude
                                  banner)))))"

section \<open>Inclusion, as the loop decides it\<close>

text \<open>
  The three decisions the loop takes about an item, each as a predicate of the item
  alone, and the list of its URI entries. They are used to state what a run emits.
\<close>

definition document_items :: "json \<Rightarrow> json list" where
  "document_items js =
     (case py_getitem js ''items'' of
        Inl e \<Rightarrow> []
      | Inr its \<Rightarrow> (case py_iter its of Inl e \<Rightarrow> [] | Inr l \<Rightarrow> l))"

text \<open>The exclude check drops the item: \<^verbatim>\<open>folderid in exclude\<close> is reached and true.\<close>

definition excluded :: "json \<Rightarrow> json \<Rightarrow> bool" where
  "excluded exclude i =
     (case py_get i ''folderId'' of
        Inl e \<Rightarrow> False
      | Inr folderid \<Rightarrow> exclude_check exclude folderid = Inr True)"

text \<open>The item has login data: \<^verbatim>\<open>i.get('login', None)\<close> is not \<^verbatim>\<open>None\<close>.\<close>

definition has_login :: "json \<Rightarrow> bool" where
  "has_login i =
     (case py_get i ''login'' of Inl e \<Rightarrow> False | Inr login \<Rightarrow> login \<noteq> JNull)"

text \<open>
  The include check lets the item through: no include id is set, or
  \<^verbatim>\<open>folder_id in i['folderId']\<close> is true.
\<close>

definition include_ok :: "json \<Rightarrow> json \<Rightarrow> bool" where
  "include_ok folder_id i =
     (if py_truthy folder_id then
        (case py_getitem i ''folderId'' of
           Inl e \<Rightarrow> False
         | Inr fi \<Rightarrow> py_in folder_id fi = Inr True)
      else True)"

definition included :: "json \<Rightarrow> json \<Rightarrow> json \<Rightarrow> bool" where
  "included folder_id exclude i =
     (if excluded exclude i then False
      else if has_login i then include_ok folder_id i
      else False)"

text \<open>The entries of the item's \<^verbatim>\<open>uris\<close> sequence; none when there is no such sequence.\<close>

definition item_uris :: "json \<Rightarrow> json list" where
  "item_uris i =
     (case py_get i ''login'' of
        Inl e \<Rightarrow> []
      | Inr login \<Rightarrow>
          (case py_getitem login ''uris'' of
             Inl e \<Rightarrow> []
           | Inr us \<Rightarrow> (case py_iter us of Inl e \<Rightarrow> [] | Inr l \<Rightarrow> l)))"

text \<open>The sum, over the included items, of the number of their URI entries.\<close>

fun expected_count :: "json \<Rightarrow> json \<Rightarrow> json list \<Rightarrow> nat" where
  "expected_count folder_id exclude [] = 0"
| "expected_count folder_id exclude (i # rest) =
     (if included folder_id exclude i then length (item_uris i) else 0)
     + expected_count folder_id exclude rest"

text \<open>The records in the output file after a run; none when the file was never opened.\<close>

definition csv_records :: "run \<Rightarrow> csv_line list" where
  "csv_records r = (case csv r of None \<Rightarrow> [] | Some (path, ls) \<Rightarrow> ls)"

section \<open>Example documents and invocations\<close>

text \<open>
  Small export documents in the shape Bitwarden writes, and an environment in which
  \<^verbatim>\<open>parse_args\<close> returns a given namespace, the input file holds a given document and
  the output file can be opened.
\<close>

definition folder :: "string \<Rightarrow> string \<Rightarrow> json" where
  "folder fid name = JObj [(''id'', JStr fid), (''name'', JStr name)]"

definition login_of :: "json \<Rightarrow> json \<Rightarrow> string list \<Rightarrow> json" where
  "login_of username password uris =
     JObj [(''username'', username), (''password'', password),
           (''uris'', JArr (map (\<lambda>u. JObj [(''match'', JNull), (''uri'', JStr u)]) uris))]"

definition item_in :: "json \<Rightarrow> string \<Rightarrow> json" where
  "item_in folderid u =
     JObj [(''folderId'', folderid), (''type'', JInt 1),
           (''login'', login_of (JStr ''u'') (JStr ''p'') [u])]"

definition secure_note :: "json \<Rightarrow> json" where
  "secure_note folderid =
     JObj [(''folderId'', folderid), (''type'', JInt 2), (''notes'', JStr ''n'')]"

definition export_doc :: "json list \<Rightarrow> json list \<Rightarrow> json" where
  "export_doc folders items = JObj [(''folders'', JArr folders), (''items'', JArr items)]"

definition cli :: "string option \<Rightarrow> string option \<Rightarrow> args" where
  "cli flt exc = \<lparr>file_arg = Some ''export.json'', filter_arg = flt, exclude_arg = exc\<rparr>"

definition cli_argv :: "string option \<Rightarrow> string option \<Rightarrow> string list" where
  "cli_argv flt exc =
     [''convert.py'', ''--file'', ''export.json'']
     @ (case flt of None \<Rightarrow> [] | Some n \<Rightarrow> [''--filter'', n])
     @ (case exc of None \<Rightarrow> [] | Some n \<Rightarrow> [''--exclude'', n])"

definition fixture_env :: "(error + json) \<Rightarrow> args \<Rightarrow> env" where
  "fixture_env content a =
     \<lparr>parse_args = (\<lambda>argv. Inr a), read_json = (\<lambda>path. content), open_w = (\<lambda>path. None)\<rparr>"

definition sample_doc :: json where
  "sample_doc =
     export_doc [folder ''1'' ''Work'', folder ''2'' ''Home'', folder ''3'' ''Home'']
       [item_in (JStr ''1'') ''https://a.example'',
        secure_note JNull,
        item_in (JStr ''2'') ''https://b.example'',
        JObj [(''folderId'', JStr ''1''),
              (''login'', login_of (JStr ''w'') JNull [''https://c.example'', ''https://d.example''])]]"

definition work_doc :: json where
  "work_doc = export_doc [folder ''1'' ''Work''] [item_in (JStr ''1'') ''https://a.example'']"

section \<open>Facts about the operations\<close>

lemmas model_defs =
  main_def get_args_def resolve_def folder_name_to_id_def write_csv_def banner_def
  item_body_def exclude_check_def document_items_def included_def excluded_def
  has_login_def include_ok_def item_uris_def csv_records_def

lemmas fixture_defs =
  fixture_env_def cli_def cli_argv_def export_doc_def folder_def login_of_def item_in_def
  secure_note_def sample_doc_def work_doc_def

lemma py_eq_str: "py_eq n (JStr s) \<longleftrightarrow> n = JStr s"
  by (cases n) auto

lemma substring_iff: "substring t s \<longleftrightarrow> (\<exists>p q. s = p @ t @ q)"
proof (induction s)
  case Nil
  then show ?case by auto
next
  case (Cons c s)
  have "sublist t (c # s) \<longleftrightarrow> prefix t (c # s) \<or> sublist t s"
    by (rule sublist_Cons_right)
  with Cons show ?case by (simp add: sublist_def)
qed

lemma substring_refl: "substring s s"
  by (cases s) simp_all

lemma substring_same_length: "substring t s \<and> length s = length t \<longleftrightarrow> s = t"
proof
  assume h: "substring t s \<and> length s = length t"
  then obtain p q where s: "s = p @ t @ q" by (auto simp: substring_iff)
  with h have "p = []" "q = []" by auto
  with s show "s = t" by simp
next
  assume "s = t"
  then show "substring t s \<and> length s = length t" by (simp add: substring_refl)
qed

subsection \<open>The loop over the URIs\<close>

lemma uris_loop_len_unfiltered:
  "\<not> py_truthy fid \<Longrightarrow> uris_loop fid i u p us = (ls, None) \<Longrightarrow> length ls = length us"
proof (induction us arbitrary: ls)
  case Nil
  then show ?case by simp
next
  case (Cons x us)
  then show ?case by (auto split: sum.splits prod.splits)
qed

lemma uris_loop_len_filtered:
  "py_truthy fid \<Longrightarrow> uris_loop fid i u p us = (ls, None) \<Longrightarrow>
   length ls = (if include_ok fid i then length us else 0)"
proof (induction us arbitrary: ls)
  case Nil
  then show ?case by simp
next
  case (Cons x us)
  then show ?case
    by (auto simp: include_ok_def split: sum.splits prod.splits if_splits)
qed

lemma uris_loop_len:
  "uris_loop fid i u p us = (ls, None) \<Longrightarrow>
   length ls = (if include_ok fid i then length us else 0)"
  using uris_loop_len_unfiltered uris_loop_len_filtered
  by (cases "py_truthy fid") (auto simp: include_ok_def)

lemma uris_loop_unfiltered:
  "\<not> py_truthy fid \<Longrightarrow> map (\<lambda>x. py_getitem x ''uri'') us = map Inr vs \<Longrightarrow>
   uris_loop fid i u p us = (map (\<lambda>v. (v, u, p)) vs, None)"
  by (induction us arbitrary: vs) auto

lemma uris_loop_filtered:
  "py_truthy fid \<Longrightarrow> py_getitem i ''folderId'' = Inr fi \<Longrightarrow> py_in fid fi = Inr b \<Longrightarrow>
   map (\<lambda>x. py_getitem x ''uri'') us = map Inr vs \<Longrightarrow>
   uris_loop fid i u p us = (if b then map (\<lambda>v. (v, u, p)) vs else [], None)"
  by (induction us arbitrary: vs) auto

subsection \<open>The loop over the items\<close>

lemma item_body_len:
  "item_body fid ex i = (ls, None) \<Longrightarrow>
   length ls = (if included fid ex i then length (item_uris i) else 0)"
  unfolding item_body_def included_def excluded_def has_login_def item_uris_def
  by (auto split: sum.splits if_splits dest: uris_loop_len)

lemma item_body_login:
  assumes "py_get i ''folderId'' = Inr fo"
    and "exclude_check ex fo = Inr False"
    and "py_get i ''login'' = Inr login"
    and "login \<noteq> JNull"
    and "py_getitem login ''username'' = Inr u"
    and "py_getitem login ''password'' = Inr p"
    and "py_getitem login ''uris'' = Inr us"
    and "py_iter us = Inr l"
  shows "item_body fid ex i = uris_loop fid i u p l"
  using assms by (simp add: item_body_def)

lemma items_loop_len:
  "items_loop fid ex items = (ls, None) \<Longrightarrow> length ls = expected_count fid ex items"
proof (induction items arbitrary: ls)
  case Nil
  then show ?case by simp
next
  case (Cons i items)
  then show ?case
    by (auto split: prod.splits option.splits dest: item_body_len)
qed

lemma items_loop_append:
  "items_loop fid ex (xs @ ys) =
     (case items_loop fid ex xs of
        (ls, Some e) \<Rightarrow> (ls, Some e)
      | (ls, None) \<Rightarrow> (case items_loop fid ex ys of (ls', r) \<Rightarrow> (ls @ ls', r)))"
  by (induction xs) (auto split: prod.splits option.splits)

lemma items_loop_skip:
  "item_body fid ex i = ([], None) \<Longrightarrow>
   items_loop fid ex (pre @ i # post) = items_loop fid ex (pre @ post)"
  by (simp add: items_loop_append split: prod.splits option.splits)

lemma items_loop_raises:
  "snd (item_body fid ex i) \<noteq> None \<Longrightarrow> snd (items_loop fid ex (pre @ i # post)) \<noteq> None"
  by (auto simp: items_loop_append split: prod.splits option.splits)

subsection \<open>The whole run\<close>

lemma main_completed:
  assumes "outcome (main ev argv) = Completed"
    and "get_args ev argv = Inr a"
    and "read_json ev (the (file_arg a)) = Inr js"
    and "resolve js (filter_arg a) = Inr fid"
    and "resolve js (exclude_arg a) = Inr ex"
  shows "\<exists>ls. items_loop fid ex (document_items js) = (ls, None) \<and>
              csv (main ev argv) = Some (the (file_arg a) @ ''.csv'', ls)"
  using assms unfolding main_def write_csv_def document_items_def
  by (auto split: sum.splits if_splits option.splits prod.splits)

lemma main_raises:
  assumes "get_args ev argv = Inr a"
    and "opt_truthy (file_arg a)"
    and "read_json ev (the (file_arg a)) = Inr js"
    and "resolve js (filter_arg a) = Inr fid"
    and "\<And>ex. snd (items_loop fid ex (document_items js)) \<noteq> None"
  shows "\<exists>e. outcome (main ev argv) = Raised e"
proof (cases "resolve js (exclude_arg a)")
  case (Inl e)
  with assms(1-4) show ?thesis by (simp add: main_def)
next
  case (Inr ex)
  from assms(5)[of ex] obtain ls e where
    l: "items_loop fid ex (document_items js) = (ls, Some e)"
    by (cases "items_loop fid ex (document_items js)") auto
  show ?thesis
  proof (cases "open_w ev (the (file_arg a) @ ''.csv'')")
    case (Some e')
    with assms(1-4) Inr show ?thesis by (simp add: main_def)
  next
    case None
    with assms(1-4) Inr l show ?thesis
      by (auto simp: main_def write_csv_def document_items_def split: sum.splits)
  qed
qed

lemma folders_loop_skip:
  "\<forall>g\<in>set pre. \<exists>n. py_getitem g ''name'' = Inr n \<and> n \<noteq> JStr name \<Longrightarrow>
   folders_loop (pre @ rest) name = folders_loop rest name"
  by (induction pre) (auto simp: py_eq_str)

section \<open>The number of records a run emits\<close>

text \<open>
  Claim C1 says that for every document and every setting the number of records
  written equals the sum, over the included items, of the number of their URI entries.
  It fails when a run is cut short. In the document below the first item's login has no
  \<^verbatim>\<open>uris\<close> key, so it counts zero entries, and the second item has one URI; run without
  \<^verbatim>\<open>--filter\<close> and \<^verbatim>\<open>--exclude\<close>, \<^verbatim>\<open>login['uris']\<close> raises \<^verbatim>\<open>KeyError\<close> on the first item
  and nothing is written, while the sum over the included items is 1.
\<close>

theorem record_count_fails_on_aborted_run:
  "outcome (main (fixture_env (Inr (export_doc []
       [JObj [(''login'', JObj [(''username'', JStr ''u''), (''password'', JStr ''p'')])],
        item_in JNull ''https://a.example''])) (cli None None)) (cli_argv None None))
     = Raised (KeyError ''uris'')
   \<and> length (csv_records (main (fixture_env (Inr (export_doc []
       [JObj [(''login'', JObj [(''username'', JStr ''u''), (''password'', JStr ''p'')])],
        item_in JNull ''https://a.example''])) (cli None None)) (cli_argv None None))) = 0
   \<and> expected_count JNull JNull (document_items (export_doc []
       [JObj [(''login'', JObj [(''username'', JStr ''u''), (''password'', JStr ''p'')])],
        item_in JNull ''https://a.example''])) = 1"
  by (simp add: model_defs fixture_defs)

text \<open>
  Claim C1, amended: for every document and every include/exclude setting, when the run
  completes without raising, the number of records written to the output file equals
  the sum, over the included items, of the number of entries of the item's \<^verbatim>\<open>uris\<close>
  sequence. An item is included when the exclude check does not drop it, it has login
  data, and the include check lets it through.
\<close>

theorem completed_run_record_count:
  assumes "get_args ev argv = Inr a"
    and "read_json ev (the (file_arg a)) = Inr js"
    and "resolve js (filter_arg a) = Inr folder_id"
    and "resolve js (exclude_arg a) = Inr exclude"
    and "outcome (main ev argv) = Completed"
  shows "length (csv_records (main ev argv)) =
         expected_count folder_id exclude (document_items js)"
proof -
  from main_completed[OF assms(5) assms(1-4)] obtain ls where
    l: "items_loop folder_id exclude (document_items js) = (ls, None)" and
    c: "csv (main ev argv) = Some (the (file_arg a) @ ''.csv'', ls)"
    by blast
  from c have "csv_records (main ev argv) = ls" by (simp add: csv_records_def)
  with items_loop_len[OF l] show ?thesis by simp
qed

text \<open>
  The amended claim C1 on \<open>sample_doc\<close> with \<^verbatim>\<open>--filter Work\<close>: the two items of folder 1
  carry one and two URIs, and three records are written.
\<close>

theorem completed_run_record_count_witness:
  "outcome (main (fixture_env (Inr sample_doc) (cli (Some ''Work'') None))
             (cli_argv (Some ''Work'') None)) = Completed
   \<and> length (csv_records (main (fixture_env (Inr sample_doc) (cli (Some ''Work'') None))
                           (cli_argv (Some ''Work'') None)))
     = expected_count (JStr ''1'') JNull (document_items sample_doc)
   \<and> expected_count (JStr ''1'') JNull (document_items sample_doc) = 3"
proof -
  let ?ev = "fixture_env (Inr sample_doc) (cli (Some ''Work'') None)"
  let ?argv = "cli_argv (Some ''Work'') None"
  let ?a = "cli (Some ''Work'') None"
  have h1: "get_args ?ev ?argv = Inr ?a"
    by (simp add: model_defs fixture_defs)
  have h2: "read_json ?ev (the (file_arg ?a)) = Inr sample_doc"
    by (simp add: fixture_defs)
  have h3: "resolve sample_doc (filter_arg ?a) = Inr (JStr ''1'')"
    by (simp add: model_defs fixture_defs)
  have h4: "resolve sample_doc (exclude_arg ?a) = Inr JNull"
    by (simp add: model_defs fixture_defs)
  have h5: "outcome (main ?ev ?argv) = Completed"
    by (simp add: model_defs fixture_defs)
  have e: "expected_count (JStr ''1'') JNull (document_items sample_doc) = 3"
    by (simp add: model_defs fixture_defs)
  from completed_run_record_count[OF h1 h2 h3 h4 h5] h5 e show ?thesis by simp
qed

section \<open>The include check\<close>

text \<open>
  Claim C2 says that with an include id set an item is included if and only if its
  \<^verbatim>\<open>folderId\<close> equals the include id. It fails: \<^verbatim>\<open>folder_id in i['folderId']\<close> on two
  strings is a substring test. With folders Work (id 1) and Home (id 12) and
  \<^verbatim>\<open>--filter Work\<close>, the item of folder 12 is written although 12 is not 1.
\<close>

theorem include_check_is_not_equality:
  "resolve (export_doc [folder ''1'' ''Work'', folder ''12'' ''Home'']
              [item_in (JStr ''12'') ''https://a.example'']) (Some ''Work'') = Inr (JStr ''1'')
   \<and> py_get (item_in (JStr ''12'') ''https://a.example'') ''folderId'' = Inr (JStr ''12'')
   \<and> csv (main (fixture_env (Inr (export_doc [folder ''1'' ''Work'', folder ''12'' ''Home'']
                   [item_in (JStr ''12'') ''https://a.example''])) (cli (Some ''Work'') None))
             (cli_argv (Some ''Work'') None))
     = Some (''export.json.csv'', [(JStr ''https://a.example'', JStr ''u'', JStr ''p'')])"
  by (simp add: model_defs fixture_defs)

text \<open>
  Claim C2, amended: when an include id \<open>t\<close> is set (a non-empty string), an item with
  login data that passes the exclude check and whose \<^verbatim>\<open>folderId\<close> is the string \<open>s\<close> has
  its records written if and only if \<open>t\<close> occurs in \<open>s\<close> as a contiguous substring;
  for ids of the same length this is equality of the two ids.
\<close>

theorem include_is_containment:
  assumes "py_get i ''folderId'' = Inr (JStr s)"
    and "exclude_check exclude (JStr s) = Inr False"
    and "py_get i ''login'' = Inr login"
    and "login \<noteq> JNull"
    and "py_getitem login ''username'' = Inr u"
    and "py_getitem login ''password'' = Inr p"
    and "py_getitem login ''uris'' = Inr (JArr us)"
    and "map (\<lambda>x. py_getitem x ''uri'') us = map Inr vs"
    and "t \<noteq> []"
  shows "item_body (JStr t) exclude i =
           (if substring t s then map (\<lambda>v. (v, u, p)) vs else [], None)
         \<and> (substring t s \<longleftrightarrow> (\<exists>a b. s = a @ t @ b))
         \<and> ((substring t s \<and> length s = length t) \<longleftrightarrow> s = t)"
proof -
  from assms(1) have g: "py_getitem i ''folderId'' = Inr (JStr s)"
    by (cases i) (auto split: option.splits)
  have "item_body (JStr t) exclude i = uris_loop (JStr t) i u p us"
    using assms(1-7) by (intro item_body_login) auto
  also have "\<dots> = (if substring t s then map (\<lambda>v. (v, u, p)) vs else [], None)"
    using assms(8,9) g by (intro uris_loop_filtered) auto
  finally show ?thesis
    using substring_iff[of t s] substring_same_length[of t s] by simp
qed

text \<open>
  The amended claim C2 on an item of folder 12 with include id 1: the id 1 occurs in 12,
  and the record is written.
\<close>

theorem include_is_containment_witness:
  "substring ''1'' ''12''
   \<and> item_body (JStr ''1'') JNull (item_in (JStr ''12'') ''https://a.example'')
     = ([(JStr ''https://a.example'', JStr ''u'', JStr ''p'')], None)"
proof -
  let ?i = "item_in (JStr ''12'') ''https://a.example''"
  let ?login = "login_of (JStr ''u'') (JStr ''p'') [''https://a.example'']"
  let ?us = "[JObj [(''match'', JNull), (''uri'', JStr ''https://a.example'')]]"
  have h1: "py_get ?i ''folderId'' = Inr (JStr ''12'')"
    by (simp add: fixture_defs)
  have h2: "exclude_check JNull (JStr ''12'') = Inr False"
    by (simp add: exclude_check_def)
  have h3: "py_get ?i ''login'' = Inr ?login"
    by (simp add: fixture_defs)
  have h4: "?login \<noteq> JNull"
    by (simp add: fixture_defs)
  have h5: "py_getitem ?login ''username'' = Inr (JStr ''u'')"
    by (simp add: fixture_defs)
  have h6: "py_getitem ?login ''password'' = Inr (JStr ''p'')"
    by (simp add: fixture_defs)
  have h7: "py_getitem ?login ''uris'' = Inr (JArr ?us)"
    by (simp add: fixture_defs)
  have h8: "map (\<lambda>x. py_getitem x ''uri'') ?us = map Inr [JStr ''https://a.example'']"
    by simp
  have h9: "''1'' \<noteq> []"
    by simp
  from include_is_containment[OF h1 h2 h3 h4 h5 h6 h7 h8 h9]
  show ?thesis by simp
qed

section \<open>Record extraction\<close>

text \<open>
  Claim C3 says that extraction does not fail when \<^verbatim>\<open>login.username\<close>,
  \<^verbatim>\<open>login.password\<close> or \<^verbatim>\<open>login.uris\<close> is absent. It fails: the three fields are read by
  subscript, so an absent key raises \<^verbatim>\<open>KeyError\<close>, for \<^verbatim>\<open>username\<close> and for \<^verbatim>\<open>uris\<close> alike.
\<close>

theorem absent_login_field_raises:
  "item_body JNull JNull
     (JObj [(''login'', JObj [(''password'', JStr ''p''),
                              (''uris'', JArr [JObj [(''uri'', JStr ''https://a.example'')]])])])
     = ([], Some (KeyError ''username''))
   \<and> item_body JNull JNull
     (JObj [(''login'', JObj [(''username'', JStr ''u''), (''password'', JStr ''p'')])])
     = ([], Some (KeyError ''uris''))"
  by (simp add: model_defs)

text \<open>
  Claim C3, amended: for every included item whose login object has the keys
  \<^verbatim>\<open>username\<close>, \<^verbatim>\<open>password\<close> and \<^verbatim>\<open>uris\<close>, the latter a list of objects with a \<^verbatim>\<open>uri\<close> key,
  extraction does not fail and gives one record per entry, in order, with the username
  and the password passed through as they are, \<^verbatim>\<open>null\<close> included; an empty list gives no
  record.
\<close>

theorem extraction_total_when_keys_present:
  assumes "py_get i ''folderId'' = Inr fo"
    and "exclude_check exclude fo = Inr False"
    and "include_ok folder_id i"
    and "py_get i ''login'' = Inr login"
    and "login \<noteq> JNull"
    and "py_getitem login ''username'' = Inr u"
    and "py_getitem login ''password'' = Inr p"
    and "py_getitem login ''uris'' = Inr (JArr us)"
    and "map (\<lambda>x. py_getitem x ''uri'') us = map Inr vs"
  shows "item_body folder_id exclude i = (map (\<lambda>v. (v, u, p)) vs, None)"
proof -
  have b: "item_body folder_id exclude i = uris_loop folder_id i u p us"
    using assms(1,2,4-8) by (intro item_body_login) auto
  show ?thesis
  proof (cases "py_truthy folder_id")
    case False
    with b assms(9) show ?thesis by (simp add: uris_loop_unfiltered)
  next
    case True
    with assms(3) obtain fi where
      "py_getitem i ''folderId'' = Inr fi" "py_in folder_id fi = Inr True"
      by (auto simp: include_ok_def split: sum.splits)
    with True b assms(9) show ?thesis by (simp add: uris_loop_filtered)
  qed
qed

text \<open>
  The amended claim C3 on an item of folder 1 whose username and password are \<^verbatim>\<open>null\<close>,
  with include id 1: both records carry the two \<^verbatim>\<open>null\<close>s.
\<close>

theorem extraction_total_when_keys_present_witness:
  "item_body (JStr ''1'') JNull
     (JObj [(''folderId'', JStr ''1''),
            (''login'', login_of JNull JNull [''https://a.example'', ''https://b.example''])])
   = ([(JStr ''https://a.example'', JNull, JNull), (JStr ''https://b.example'', JNull, JNull)],
      None)"
proof -
  let ?login = "login_of JNull JNull [''https://a.example'', ''https://b.example'']"
  let ?i = "JObj [(''folderId'', JStr ''1''), (''login'', ?login)]"
  let ?us = "[JObj [(''match'', JNull), (''uri'', JStr ''https://a.example'')],
              JObj [(''match'', JNull), (''uri'', JStr ''https://b.example'')]]"
  have h1: "py_get ?i ''folderId'' = Inr (JStr ''1'')"
    by simp
  have h2: "exclude_check JNull (JStr ''1'') = Inr False"
    by (simp add: exclude_check_def)
  have h3: "include_ok (JStr ''1'') ?i"
    by (simp add: include_ok_def)
  have h4: "py_get ?i ''login'' = Inr ?login"
    by simp
  have h5: "?login \<noteq> JNull"
    by (simp add: fixture_defs)
  have h6: "py_getitem ?login ''username'' = Inr JNull"
    by (simp add: fixture_defs)
  have h7: "py_getitem ?login ''password'' = Inr JNull"
    by (simp add: fixture_defs)
  have h8: "py_getitem ?login ''uris'' = Inr (JArr ?us)"
    by (simp add: fixture_defs)
  have h9: "map (\<lambda>x. py_getitem x ''uri'') ?us
            = map Inr [JStr ''https://a.example'', JStr ''https://b.example'']"
    by simp
  from extraction_total_when_keys_present[OF h1 h2 h3 h4 h5 h6 h7 h8 h9]
  show ?thesis by simp
qed

section \<open>A filter name that names no folder\<close>

text \<open>
  Claim C4 says that when \<^verbatim>\<open>--filter\<close> names no folder of the document, no item is
  included and the output has no record. It fails: the resolution returns \<^verbatim>\<open>None\<close>,
  \<^verbatim>\<open>if folder_id:\<close> is then false, and every item with login data is written. On
  \<open>work_doc\<close> with \<^verbatim>\<open>--filter Nope\<close> the one record is written.
\<close>

theorem unresolved_filter_writes_records:
  "folder_name_to_id work_doc ''Nope'' = Inr JNull
   \<and> csv (main (fixture_env (Inr work_doc) (cli (Some ''Nope'') None))
             (cli_argv (Some ''Nope'') None))
     = Some (''export.json.csv'', [(JStr ''https://a.example'', JStr ''u'', JStr ''p'')])"
  by (simp add: model_defs fixture_defs)

text \<open>
  Claim C4, amended: when \<^verbatim>\<open>--filter\<close> is given a name that matches no folder of the
  document (the resolution returns \<^verbatim>\<open>None\<close>), no include restriction applies: the run is
  the run of the same invocation without \<^verbatim>\<open>--filter\<close>.
\<close>

theorem unresolved_filter_is_no_filter:
  assumes "get_args ev argv = Inr a"
    and "filter_arg a = Some name"
    and "read_json ev (the (file_arg a)) = Inr js"
    and "folder_name_to_id js name = Inr JNull"
    and "get_args ev' argv' = Inr (a\<lparr>filter_arg := None\<rparr>)"
    and "read_json ev' = read_json ev"
    and "open_w ev' = open_w ev"
  shows "main ev argv = main ev' argv'"
proof -
  have "resolve js (filter_arg a) = Inr JNull"
    using assms(2,4) by (simp add: resolve_def)
  moreover have "resolve js (filter_arg (a\<lparr>filter_arg := None\<rparr>)) = Inr JNull"
    by (simp add: resolve_def)
  ultimately show ?thesis
    using assms(1,3,5,6,7) by (simp add: main_def cong: sum.case_cong option.case_cong)
qed

text \<open>
  The amended claim C4 on \<open>sample_doc\<close>: \<^verbatim>\<open>--filter Nope\<close> gives the run without
  \<^verbatim>\<open>--filter\<close>, which writes the four records of the document.
\<close>

theorem unresolved_filter_is_no_filter_witness:
  "folder_name_to_id sample_doc ''Nope'' = Inr JNull
   \<and> main (fixture_env (Inr sample_doc) (cli (Some ''Nope'') None)) (cli_argv (Some ''Nope'') None)
     = main (fixture_env (Inr sample_doc) (cli None None)) (cli_argv None None)
   \<and> length (csv_records (main (fixture_env (Inr sample_doc) (cli None None))
                           (cli_argv None None))) = 4"
proof -
  let ?a = "cli (Some ''Nope'') None"
  let ?ev = "fixture_env (Inr sample_doc) ?a"
  let ?ev' = "fixture_env (Inr sample_doc) (cli None None)"
  have h1: "get_args ?ev (cli_argv (Some ''Nope'') None) = Inr ?a"
    by (simp add: model_defs fixture_defs)
  have h2: "filter_arg ?a = Some ''Nope''"
    by (simp add: fixture_defs)
  have h3: "read_json ?ev (the (file_arg ?a)) = Inr sample_doc"
    by (simp add: fixture_defs)
  have h4: "folder_name_to_id sample_doc ''Nope'' = Inr JNull"
    by (simp add: model_defs fixture_defs)
  have h5: "get_args ?ev' (cli_argv None None) = Inr (?a\<lparr>filter_arg := None\<rparr>)"
    by (simp add: model_defs fixture_defs)
  have h6: "read_json ?ev' = read_json ?ev"
    by (simp add: fixture_defs)
  have h7: "open_w ?ev' = open_w ?ev"
    by (simp add: fixture_defs)
  have n: "length (csv_records (main ?ev' (cli_argv None None))) = 4"
    by (simp add: model_defs fixture_defs)
  from unresolved_filter_is_no_filter[OF h1 h2 h3 h4 h5 h6 h7] h4 n
  show ?thesis by simp
qed

section \<open>Exclusion and items without login data\<close>

text \<open>
  Claim C5: exclude takes precedence over include. An item whose \<^verbatim>\<open>folderId\<close> (a
  non-empty string \<open>s\<close>) is matched by the exclude id is dropped by the exclude check,
  which comes first in the loop body: it contributes no record and raises nothing,
  whatever the include id \<open>folder_id\<close> is, and the run is the run of the document
  without the item. The exclude id matches when it is \<open>s\<close> itself, and more generally
  when \<open>s\<close> occurs in it (\<^verbatim>\<open>folderid in exclude\<close>).
\<close>

theorem exclude_wins:
  assumes "py_get i ''folderId'' = Inr (JStr s)"
    and "s \<noteq> []"
    and "substring s x"
  shows "item_body folder_id (JStr s) i = ([], None)
         \<and> items_loop folder_id (JStr s) (pre @ i # post)
           = items_loop folder_id (JStr s) (pre @ post)
         \<and> item_body folder_id (JStr x) i = ([], None)"
proof -
  have b: "item_body folder_id (JStr y) i = ([], None)" if "substring s y" for y
  proof -
    from that assms(2) have "y \<noteq> []" by (cases y) auto
    with that assms(1,2) show ?thesis
      by (simp add: item_body_def exclude_check_def)
  qed
  from b[OF substring_refl] have "item_body folder_id (JStr s) i = ([], None)" .
  with b[OF assms(3)] items_loop_skip show ?thesis by blast
qed

text \<open>
  Claim C5 on \<open>work_doc\<close> with \<^verbatim>\<open>--filter Work --exclude Work\<close>: the item of folder 1
  matches both ids and nothing is written.
\<close>

theorem exclude_wins_witness:
  "py_get (item_in (JStr ''1'') ''https://a.example'') ''folderId'' = Inr (JStr ''1'')
   \<and> substring ''1'' ''1''
   \<and> item_body (JStr ''1'') (JStr ''1'') (item_in (JStr ''1'') ''https://a.example'') = ([], None)
   \<and> main (fixture_env (Inr work_doc) (cli (Some ''Work'') (Some ''Work'')))
        (cli_argv (Some ''Work'') (Some ''Work''))
     = \<lparr>outcome = Completed, stdout = banner, csv = Some (''export.json.csv'', [])\<rparr>"
proof -
  let ?i = "item_in (JStr ''1'') ''https://a.example''"
  have h1: "py_get ?i ''folderId'' = Inr (JStr ''1'')"
    by (simp add: fixture_defs)
  have h2: "''1'' \<noteq> []"
    by simp
  have h3: "substring ''1'' ''1''"
    by simp
  have m: "main (fixture_env (Inr work_doc) (cli (Some ''Work'') (Some ''Work'')))
             (cli_argv (Some ''Work'') (Some ''Work''))
           = \<lparr>outcome = Completed, stdout = banner, csv = Some (''export.json.csv'', [])\<rparr>"
    by (simp add: model_defs fixture_defs)
  from exclude_wins[OF h1 h2 h3, of "JStr ''1''" "[]" "[]"] h1 h3 m
  show ?thesis by simp
qed

text \<open>
  Claim C6: an item whose \<^verbatim>\<open>login\<close> field is absent or \<^verbatim>\<open>null\<close> contributes no record,
  for every include id and every exclude id: the loop body emits nothing for it, and
  when the body does not raise, the run is the run of the document without the item.
\<close>

theorem no_login_no_records:
  assumes "i = JObj kvs"
    and "map_of kvs ''login'' = None \<or> map_of kvs ''login'' = Some JNull"
  shows "fst (item_body folder_id exclude i) = []
         \<and> (snd (item_body folder_id exclude i) = None \<longrightarrow>
              items_loop folder_id exclude (pre @ i # post)
              = items_loop folder_id exclude (pre @ post))"
proof -
  have f: "fst (item_body folder_id exclude i) = []"
    using assms by (auto simp: item_body_def split: sum.splits)
  then have "item_body folder_id exclude i = ([], None)"
    if "snd (item_body folder_id exclude i) = None"
    using that by (cases "item_body folder_id exclude i") simp
  with f items_loop_skip show ?thesis by blast
qed

text \<open>
  Claim C6 on a secure note of folder 1 with include id 1, between two login items: the
  note adds nothing to the two records of its neighbours.
\<close>

theorem no_login_no_records_witness:
  "item_body (JStr ''1'') JNull (secure_note (JStr ''1'')) = ([], None)
   \<and> items_loop (JStr ''1'') JNull
       [item_in (JStr ''1'') ''https://a.example'', secure_note (JStr ''1''),
        item_in (JStr ''1'') ''https://b.example'']
     = items_loop (JStr ''1'') JNull
       [item_in (JStr ''1'') ''https://a.example'', item_in (JStr ''1'') ''https://b.example'']
   \<and> fst (items_loop (JStr ''1'') JNull
       [item_in (JStr ''1'') ''https://a.example'', secure_note (JStr ''1''),
        item_in (JStr ''1'') ''https://b.example''])
     = [(JStr ''https://a.example'', JStr ''u'', JStr ''p''),
        (JStr ''https://b.example'', JStr ''u'', JStr ''p'')]"
proof -
  let ?kvs = "[(''folderId'', JStr ''1''), (''type'', JInt 2), (''notes'', JStr ''n'')]"
  have h1: "secure_note (JStr ''1'') = JObj ?kvs"
    by (simp add: fixture_defs)
  have h2: "map_of ?kvs ''login'' = None \<or> map_of ?kvs ''login'' = Some JNull"
    by simp
  have b: "item_body (JStr ''1'') JNull (secure_note (JStr ''1'')) = ([], None)"
    by (simp add: model_defs fixture_defs)
  have r: "fst (items_loop (JStr ''1'') JNull
       [item_in (JStr ''1'') ''https://a.example'', item_in (JStr ''1'') ''https://b.example''])
     = [(JStr ''https://a.example'', JStr ''u'', JStr ''p''),
        (JStr ''https://b.example'', JStr ''u'', JStr ''p'')]"
    by (simp add: model_defs fixture_defs)
  from no_login_no_records[OF h1 h2, of "JStr ''1''" JNull
      "[item_in (JStr ''1'') ''https://a.example'']"
      "[item_in (JStr ''1'') ''https://b.example'']"] b r
  show ?thesis by simp
qed

section \<open>Runs that end before the output file is opened\<close>

text \<open>
  Claim C7 says that an invocation with arguments but without \<^verbatim>\<open>--file\<close> prints an error
  message and ends with a non-zero exit status, without touching an output file. The
  program prints the message and opens no file, but it leaves through \<^verbatim>\<open>exit()\<close> with no
  argument, whose status is 0; the invocation with no argument at all leaves through
  \<^verbatim>\<open>sys.exit(1)\<close>. The run of \<^verbatim>\<open>convert.py --filter Work\<close>:
\<close>

theorem missing_file_exit_status:
  "main (fixture_env (Inr work_doc)
           \<lparr>file_arg = None, filter_arg = Some ''Work'', exclude_arg = None\<rparr>)
        [''convert.py'', ''--filter'', ''Work'']
     = \<lparr>outcome = Exited 0,
        stdout = [Msg ''Bitwarden to Mooltipass'', Msg ''Error: Need a json file from Bitwarden''],
        csv = None\<rparr>
   \<and> exit_status (outcome (main (fixture_env (Inr work_doc)
           \<lparr>file_arg = None, filter_arg = Some ''Work'', exclude_arg = None\<rparr>)
        [''convert.py'', ''--filter'', ''Work''])) = 0
   \<and> exit_status (outcome (main (fixture_env (Inr work_doc)
           \<lparr>file_arg = None, filter_arg = None, exclude_arg = None\<rparr>)
        [''convert.py''])) = 1"
  by (simp add: model_defs fixture_defs)

text \<open>
  Claim C8: when the input file does not exist or does not parse, \<^verbatim>\<open>load_json\<close> raises,
  and the run ends there with the exception (exit status 1): only the banner has been
  printed, and the output file has not been opened, so it is neither created nor
  truncated.
\<close>

theorem load_failure_aborts_before_output:
  assumes "get_args ev argv = Inr a"
    and "opt_truthy (file_arg a)"
    and "read_json ev (the (file_arg a)) = Inl e"
  shows "main ev argv = \<lparr>outcome = Raised e, stdout = banner, csv = None\<rparr>
         \<and> exit_status (outcome (main ev argv)) = 1"
  using assms by (simp add: main_def)

text \<open>Claim C8 on a missing input file.\<close>

theorem load_failure_aborts_before_output_witness:
  "read_json (fixture_env (Inl FileNotFoundError) (cli None None)) ''export.json''
     = Inl FileNotFoundError
   \<and> main (fixture_env (Inl FileNotFoundError) (cli None None)) (cli_argv None None)
     = \<lparr>outcome = Raised FileNotFoundError, stdout = banner, csv = None\<rparr>
   \<and> csv (main (fixture_env (Inl JSONDecodeError) (cli None None)) (cli_argv None None)) = None"
proof -
  let ?a = "cli None None"
  have h1: "get_args (fixture_env (Inl err) ?a) (cli_argv None None) = Inr ?a" for err
    by (simp add: model_defs fixture_defs)
  have h2: "opt_truthy (file_arg ?a)"
    by (simp add: fixture_defs)
  have h3: "read_json (fixture_env (Inl err) ?a) (the (file_arg ?a)) = Inl err" for err
    by (simp add: fixture_defs)
  have r: "read_json (fixture_env (Inl FileNotFoundError) ?a) ''export.json''
           = Inl FileNotFoundError"
    by (simp add: fixture_defs)
  from load_failure_aborts_before_output[OF h1 h2 h3, of FileNotFoundError]
    load_failure_aborts_before_output[OF h1 h2 h3, of JSONDecodeError] r
  show ?thesis by simp
qed

section \<open>Folder resolution returns the first match\<close>

text \<open>
  Claim C9: \<^verbatim>\<open>folder_name_to_id\<close> scans the folders in order. When the folders before
  \<open>f\<close> are records with another name and \<open>f\<close> has the name asked for, the result is
  \<^verbatim>\<open>f['id']\<close>, whatever follows \<open>f\<close>, so among folders of the same name the earliest one
  gives the id; when every folder is a record with another name, the result is \<^verbatim>\<open>None\<close>
  and nothing is raised.
\<close>

theorem folder_name_to_id_first_match:
  assumes "py_getitem js ''folders'' = Inr (JArr fs)"
  shows "(fs = pre @ f # post
          \<and> (\<forall>g\<in>set pre. \<exists>n. py_getitem g ''name'' = Inr n \<and> n \<noteq> JStr name)
          \<and> py_getitem f ''name'' = Inr (JStr name)
          \<longrightarrow> folder_name_to_id js name = py_getitem f ''id'')
       \<and> ((\<forall>g\<in>set fs. \<exists>n. py_getitem g ''name'' = Inr n \<and> n \<noteq> JStr name)
          \<longrightarrow> folder_name_to_id js name = Inr JNull)"
proof (intro conjI impI)
  assume h: "fs = pre @ f # post
          \<and> (\<forall>g\<in>set pre. \<exists>n. py_getitem g ''name'' = Inr n \<and> n \<noteq> JStr name)
          \<and> py_getitem f ''name'' = Inr (JStr name)"
  then have "folders_loop fs name = folders_loop (f # post) name"
    using folders_loop_skip[of pre name "f # post"] by simp
  with h assms show "folder_name_to_id js name = py_getitem f ''id''"
    by (simp add: folder_name_to_id_def)
next
  assume "\<forall>g\<in>set fs. \<exists>n. py_getitem g ''name'' = Inr n \<and> n \<noteq> JStr name"
  then have "folders_loop fs name = Inr JNull"
    using folders_loop_skip[of fs name "[]"] by simp
  with assms show "folder_name_to_id js name = Inr JNull"
    by (simp add: folder_name_to_id_def)
qed

text \<open>
  Claim C9 on \<open>sample_doc\<close>, whose folders 2 and 3 are both named Home: the name Home
  resolves to 2, and the name Nope to \<^verbatim>\<open>None\<close>.
\<close>

theorem folder_name_to_id_first_match_witness:
  "folder_name_to_id sample_doc ''Home'' = Inr (JStr ''2'')
   \<and> folder_name_to_id sample_doc ''Nope'' = Inr JNull"
proof -
  let ?fs = "[folder ''1'' ''Work'', folder ''2'' ''Home'', folder ''3'' ''Home'']"
  have h: "py_getitem sample_doc ''folders'' = Inr (JArr ?fs)"
    by (simp add: fixture_defs)
  have "folder_name_to_id sample_doc ''Home'' = py_getitem (folder ''2'' ''Home'') ''id''"
    by (rule folder_name_to_id_first_match[where pre = "[folder ''1'' ''Work'']"
          and post = "[folder ''3'' ''Home'']", THEN conjunct1, THEN mp, OF h])
       (simp add: fixture_defs)
  then have 1: "folder_name_to_id sample_doc ''Home'' = Inr (JStr ''2'')"
    by (simp add: fixture_defs)
  have 2: "folder_name_to_id sample_doc ''Nope'' = Inr JNull"
    by (rule folder_name_to_id_first_match[THEN conjunct2, THEN mp, OF h])
       (simp add: fixture_defs)
  from 1 2 show ?thesis by simp
qed

section \<open>The include check on an item without folder\<close>

text \<open>
  Claim C10: when \<^verbatim>\<open>--filter\<close> resolves to a folder id (a true value, so that the include
  check runs), an item of the document with login data and at least one URI whose
  \<^verbatim>\<open>folderId\<close> is absent or \<^verbatim>\<open>null\<close> makes the run end with an uncaught exception. The
  item passes the exclude check, which reads \<^verbatim>\<open>i.get('folderId', None)\<close>, and nothing is
  written for it; when its login has the keys \<^verbatim>\<open>username\<close> and \<^verbatim>\<open>password\<close> and its first
  URI entry the key \<^verbatim>\<open>uri\<close>, the exception is that of the include check
  \<^verbatim>\<open>folder_id in i['folderId']\<close>: \<^verbatim>\<open>KeyError\<close> for an absent key, \<^verbatim>\<open>TypeError\<close> for \<^verbatim>\<open>null\<close>.
\<close>

theorem include_check_aborts:
  assumes "get_args ev argv = Inr a"
    and "opt_truthy (file_arg a)"
    and "read_json ev (the (file_arg a)) = Inr js"
    and "resolve js (filter_arg a) = Inr folder_id"
    and "py_truthy folder_id"
    and "i \<in> set (document_items js)"
    and "i = JObj kvs"
    and "map_of kvs ''folderId'' = None \<or> map_of kvs ''folderId'' = Some JNull"
    and "map_of kvs ''login'' = Some login"
    and "login \<noteq> JNull"
    and "py_getitem login ''uris'' = Inr us"
    and "py_iter us = Inr (x # xs)"
  shows "(\<exists>e. outcome (main ev argv) = Raised e)
         \<and> fst (item_body folder_id exclude i) = []
         \<and> (py_getitem login ''username'' = Inr u \<and> py_getitem login ''password'' = Inr p
              \<and> py_getitem x ''uri'' = Inr v \<longrightarrow>
            item_body folder_id exclude i =
              ([], Some (if map_of kvs ''folderId'' = None then KeyError ''folderId''
                         else TypeError)))"
proof -
  define err where
    "err = (if map_of kvs ''folderId'' = None then KeyError ''folderId'' else TypeError)"
  have ex: "exclude_check ex JNull = Inr False" for ex
    by (simp add: exclude_check_def)
  have u: "uris_loop folder_id i u' p' (x # xs) =
             ([], Some (case py_getitem x ''uri'' of Inl e \<Rightarrow> e | Inr v \<Rightarrow> err))" for u' p'
    using assms(5,7,8) by (auto simp: err_def split: sum.splits)
  have b: "item_body folder_id ex i =
             ([], Some (case py_getitem login ''username'' of
                          Inl e \<Rightarrow> e
                        | Inr u' \<Rightarrow>
                            (case py_getitem login ''password'' of
                               Inl e \<Rightarrow> e
                             | Inr p' \<Rightarrow>
                                 (case py_getitem x ''uri'' of Inl e \<Rightarrow> e | Inr v \<Rightarrow> err))))"
    for ex
    using assms(7-12) ex u
    by (auto simp: item_body_def simp del: uris_loop.simps split: sum.splits)
  from assms(6) obtain pre post where "document_items js = pre @ i # post"
    by (auto dest: split_list)
  then have "snd (items_loop folder_id ex (document_items js)) \<noteq> None" for ex
    by (simp add: items_loop_raises b)
  from main_raises[OF assms(1-4) this]
  have 1: "\<exists>e. outcome (main ev argv) = Raised e" .
  have 2: "fst (item_body folder_id exclude i) = []"
    by (simp add: b)
  have 3: "item_body folder_id exclude i = ([], Some err)"
    if "py_getitem login ''username'' = Inr u \<and> py_getitem login ''password'' = Inr p
              \<and> py_getitem x ''uri'' = Inr v"
    using that by (simp add: b)
  from 1 2 3 show ?thesis unfolding err_def by blast
qed

text \<open>
  Claim C10 on a document whose second item has \<^verbatim>\<open>folderId\<close> \<^verbatim>\<open>null\<close>, with
  \<^verbatim>\<open>--filter Work\<close>: the record of the first item is written, then the run ends with
  \<^verbatim>\<open>TypeError\<close>.
\<close>

theorem include_check_aborts_witness:
  "item_body (JStr ''1'') JNull (item_in JNull ''https://b.example'') = ([], Some TypeError)
   \<and> main (fixture_env (Inr (export_doc [folder ''1'' ''Work'']
              [item_in (JStr ''1'') ''https://a.example'', item_in JNull ''https://b.example'']))
            (cli (Some ''Work'') None)) (cli_argv (Some ''Work'') None)
     = \<lparr>outcome = Raised TypeError,
        stdout = banner @ [Rec (JStr ''https://a.example'', JStr ''u'', JStr ''p'')],
        csv = Some (''export.json.csv'', [(JStr ''https://a.example'', JStr ''u'', JStr ''p'')])\<rparr>"
proof -
  let ?js = "export_doc [folder ''1'' ''Work'']
              [item_in (JStr ''1'') ''https://a.example'', item_in JNull ''https://b.example'']"
  let ?a = "cli (Some ''Work'') None"
  let ?ev = "fixture_env (Inr ?js) ?a"
  let ?argv = "cli_argv (Some ''Work'') None"
  let ?login = "login_of (JStr ''u'') (JStr ''p'') [''https://b.example'']"
  let ?kvs = "[(''folderId'', JNull), (''type'', JInt 1), (''login'', ?login)]"
  let ?x = "JObj [(''match'', JNull), (''uri'', JStr ''https://b.example'')]"
  have c: "(\<exists>e. outcome (main ?ev ?argv) = Raised e)
         \<and> fst (item_body (JStr ''1'') JNull (item_in JNull ''https://b.example'')) = []
         \<and> (py_getitem ?login ''username'' = Inr (JStr ''u'')
              \<and> py_getitem ?login ''password'' = Inr (JStr ''p'')
              \<and> py_getitem ?x ''uri'' = Inr (JStr ''https://b.example'') \<longrightarrow>
            item_body (JStr ''1'') JNull (item_in JNull ''https://b.example'') =
              ([], Some (if map_of ?kvs ''folderId'' = None then KeyError ''folderId''
                         else TypeError)))"
    by (rule include_check_aborts[where a = ?a and js = ?js and login = ?login
          and us = "JArr [?x]" and xs = "[]"])
       (simp_all add: model_defs fixture_defs)
  have l: "py_getitem ?login ''username'' = Inr (JStr ''u'')
              \<and> py_getitem ?login ''password'' = Inr (JStr ''p'')
              \<and> py_getitem ?x ''uri'' = Inr (JStr ''https://b.example'')"
    by (simp add: fixture_defs)
  have m: "main ?ev ?argv
     = \<lparr>outcome = Raised TypeError,
        stdout = banner @ [Rec (JStr ''https://a.example'', JStr ''u'', JStr ''p'')],
        csv = Some (''export.json.csv'', [(JStr ''https://a.example'', JStr ''u'', JStr ''p'')])\<rparr>"
    by (simp add: model_defs fixture_defs)
  from c l m show ?thesis by simp
qed

end
